theory Spec2Isabelle
  imports Complex_Main "HOL-Library.AList"
begin

section \<open>Risk-gated order execution: the live trading tools\<close>

text \<open>
  The development embeds \<^verbatim>\<open>agent_tools/tool_live_trade.py\<close>,
  \<^verbatim>\<open>tools/live_risk_state.py\<close> and the parts of
  \<^verbatim>\<open>integrations/alpaca_broker.py\<close> and \<^verbatim>\<open>tools/live_alerts.py\<close>
  they call. Python floats are modelled as reals: the model is exact wherever the
  source's float arithmetic is exact (whole numbers below \<open>2^53\<close>, comparisons), and
  it has no NaN or infinity.
\<close>

subsection \<open>Values, exceptions and the environment\<close>

text \<open>
  Values that cross the JSON boundary (broker replies, the persisted risk state, tool
  results). A Python dict is an association list in insertion order; Python's
  \<^verbatim>\<open>None\<close> is \<open>JNull\<close>.
\<close>

datatype json =
    JNull
  | JBool bool
  | JNum real
  | JStr string
  | JArr "json list"
  | JObj "(string \<times> json) list"

text \<open>The exceptions the embedded code can raise.\<close>

datatype exc =
    AttributeError
  | TypeError
  | ZeroDivisionError
  | ValueError string
  | RuntimeError string
  | RequestException string

text \<open>
  \<^verbatim>\<open>str(exc)\<close>. Only exceptions raised inside \<^verbatim>\<open>submit_order\<close> are ever
  rendered, and those all carry their message.
\<close>

fun str_exc :: "exc \<Rightarrow> string" where
  "str_exc (ValueError m) = m"
| "str_exc (RuntimeError m) = m"
| "str_exc (RequestException m) = m"
| "str_exc AttributeError = ''AttributeError''"
| "str_exc TypeError = ''TypeError''"
| "str_exc ZeroDivisionError = ''float division by zero''"

datatype request = Request (meth: string) (url: string) (json_body: "json option")

text \<open>
  What \<^verbatim>\<open>requests.request\<close> does with a request: a response that is ok with a JSON
  body, ok with a body that is not JSON, not ok (status code and text), or an exception
  of the HTTP library (timeout, connection error).
\<close>

datatype reply =
    Ok_json json
  | Ok_raw string
  | Not_ok nat string
  | Net_error string

text \<open>
  Everything the code reads from outside itself: the process environment, Python's
  builtin conversions between strings and numbers (\<open>None\<close> where \<^verbatim>\<open>float(s)\<close> or
  \<^verbatim>\<open>int(s)\<close> raises ValueError), the rendering of floats in f-strings, the HTTP
  server (the reply to a request, given how many requests were sent before it), and the
  UTC date as a function of the seconds slept so far.
\<close>

record sys =
  getenv :: "string \<Rightarrow> string option"
  float_of_str :: "string \<Rightarrow> real option"
  int_of_str :: "string \<Rightarrow> int option"
  str_float :: "real \<Rightarrow> string"
  pct_float :: "real \<Rightarrow> string"
  http :: "nat \<Rightarrow> request \<Rightarrow> reply"
  utc_date :: "nat \<Rightarrow> string"

text \<open>
  The persisted risk state file: absent, unreadable as JSON, or holding a JSON document.
\<close>

datatype risk_file = Missing | Corrupt | Doc json

text \<open>
  The mutable world: the HTTP requests sent so far, the alerts handed to the alert sink,
  the risk state file and the seconds spent in \<^verbatim>\<open>time.sleep\<close>.
\<close>

record world =
  log :: "request list"
  alerts :: "(string \<times> json) list"
  state_file :: risk_file
  slept :: nat

text \<open>The keyword arguments shared by the order tools.\<close>

record order =
  symbol :: string
  qty :: "real option"
  notional :: "real option"
  estimated_price :: "real option"
  order_type :: string
  limit_price :: "real option"
  stop_price :: "real option"
  time_in_force :: "string option"
  asset_class :: string

subsection \<open>Python builtins\<close>

text \<open>\<^verbatim>\<open>d.get(k)\<close> and \<^verbatim>\<open>d.get(k, 0)\<close> on a dict.\<close>

definition dict_get :: "(string \<times> json) list \<Rightarrow> string \<Rightarrow> json" where
  "dict_get d k = (case map_of d k of None \<Rightarrow> JNull | Some v \<Rightarrow> v)"

definition dict_get0 :: "(string \<times> json) list \<Rightarrow> string \<Rightarrow> json" where
  "dict_get0 d k = (case map_of d k of None \<Rightarrow> JNum 0 | Some v \<Rightarrow> v)"

text \<open>Truthiness, as \<^verbatim>\<open>if x:\<close> and \<^verbatim>\<open>x or y\<close> test it.\<close>

fun truthy :: "json \<Rightarrow> bool" where
  "truthy JNull = False"
| "truthy (JBool b) = b"
| "truthy (JNum r) = (r \<noteq> 0)"
| "truthy (JStr s) = (s \<noteq> [])"
| "truthy (JArr xs) = (xs \<noteq> [])"
| "truthy (JObj d) = (d \<noteq> [])"

text \<open>
  \<^verbatim>\<open>float(v)\<close>: a number converts, a bool is 0 or 1, a string is parsed (ValueError
  when it is not a number), anything else is a TypeError.
\<close>

fun py_float :: "sys \<Rightarrow> json \<Rightarrow> exc + real" where
  "py_float s (JNum r) = Inr r"
| "py_float s (JBool b) = Inr (if b then 1 else 0)"
| "py_float s (JStr t) =
     (case float_of_str s t of
        None \<Rightarrow> Inl (ValueError (''could not convert string to float: '' @ t))
      | Some r \<Rightarrow> Inr r)"
| "py_float s JNull = Inl TypeError"
| "py_float s (JArr xs) = Inl TypeError"
| "py_float s (JObj d) = Inl TypeError"

text \<open>A value used as an operand of \<^verbatim>\<open>-\<close> and \<^verbatim>\<open>/\<close> with a float.\<close>

fun py_num :: "json \<Rightarrow> exc + real" where
  "py_num (JNum r) = Inr r"
| "py_num (JBool b) = Inr (if b then 1 else 0)"
| "py_num JNull = Inl TypeError"
| "py_num (JStr t) = Inl TypeError"
| "py_num (JArr xs) = Inl TypeError"
| "py_num (JObj d) = Inl TypeError"

text \<open>\<^verbatim>\<open>str.lower()\<close> on ASCII text.\<close>

definition lower_char :: "char \<Rightarrow> char" where
  "lower_char c =
     (let n = (of_char c :: nat) in if 65 \<le> n \<and> n \<le> 90 then char_of (n + 32) else c)"

definition lower :: "string \<Rightarrow> string" where
  "lower s = map lower_char s"

text \<open>\<^verbatim>\<open>str(n)\<close> for a status code.\<close>

fun str_nat :: "nat \<Rightarrow> string" where
  "str_nat n =
     (if n < 10 then [char_of (48 + n)]
      else str_nat (n div 10) @ [char_of (48 + n mod 10)])"

declare str_nat.simps [simp del]

subsection \<open>Configuration readers\<close>

definition get_env_float :: "sys \<Rightarrow> string \<Rightarrow> real option" where
  "get_env_float s key =
     (case getenv s key of
        None \<Rightarrow> None
      | Some v \<Rightarrow> if v = [] then None else float_of_str s v)"

definition get_env_int :: "sys \<Rightarrow> string \<Rightarrow> int \<Rightarrow> int" where
  "get_env_int s key dflt =
     (case getenv s key of
        None \<Rightarrow> dflt
      | Some raw \<Rightarrow>
          if raw = [] then dflt
          else (case int_of_str s raw of None \<Rightarrow> dflt | Some n \<Rightarrow> n))"

subsection \<open>The alert sink\<close>

text \<open>
  \<^verbatim>\<open>notify_alert(event, details)\<close> appends the alert to the alert log and forwards it
  to the webhook and the mail server; the model keeps the log (without the timestamp).
\<close>

definition notify_alert :: "string \<Rightarrow> json \<Rightarrow> world \<Rightarrow> world" where
  "notify_alert event details w = w\<lparr>alerts := alerts w @ [(event, details)]\<rparr>"

definition risk_alert :: "string \<Rightarrow> string \<Rightarrow> string \<Rightarrow> json" where
  "risk_alert ty sy details =
     JObj [(''type'', JStr ty), (''symbol'', JStr sy), (''details'', JStr details)]"

subsection \<open>The broker adapter\<close>

definition base_url :: "sys \<Rightarrow> string" where
  "base_url s =
     (case getenv s ''ALPACA_BASE_URL'' of
        None \<Rightarrow> ''https://paper-api.alpaca.markets''
      | Some u \<Rightarrow> u)"

definition has_credentials :: "sys \<Rightarrow> bool" where
  "has_credentials s =
     (getenv s ''ALPACA_API_KEY'' \<notin> {None, Some []} \<and>
      getenv s ''ALPACA_API_SECRET'' \<notin> {None, Some []})"

text \<open>
  \<^verbatim>\<open>AlpacaBroker._request\<close>: the headers are built first (ValueError without
  credentials, before anything is sent); a response that is not ok is a RuntimeError; a
  body that is not JSON comes back as \<^verbatim>\<open>{"raw": text}\<close>.
\<close>

definition request :: "sys \<Rightarrow> string \<Rightarrow> string \<Rightarrow> json option \<Rightarrow> world \<Rightarrow> (exc + json) \<times> world" where
  "request s method path body w =
     (if \<not> has_credentials s
      then (Inl (ValueError ''ALPACA_API_KEY and ALPACA_API_SECRET must be set''), w)
      else
        let r = Request method (base_url s @ path) body;
            w' = w\<lparr>log := log w @ [r]\<rparr>
        in case http s (length (log w)) r of
             Net_error m \<Rightarrow> (Inl (RequestException m), w')
           | Not_ok status text \<Rightarrow>
               (Inl (RuntimeError (''Alpaca API error '' @ str_nat status @ '': '' @ text)), w')
           | Ok_json j \<Rightarrow> (Inr j, w')
           | Ok_raw text \<Rightarrow> (Inr (JObj [(''raw'', JStr text)]), w'))"

definition get_account :: "sys \<Rightarrow> world \<Rightarrow> (exc + json) \<times> world" where
  "get_account s w = request s ''GET'' ''/v2/account'' None w"

definition list_positions :: "sys \<Rightarrow> world \<Rightarrow> (exc + json) \<times> world" where
  "list_positions s w = request s ''GET'' ''/v2/positions'' None w"

definition opt_field :: "string \<Rightarrow> real option \<Rightarrow> (string \<times> json) list" where
  "opt_field k v = (case v of None \<Rightarrow> [] | Some r \<Rightarrow> [(k, JNum r)])"

text \<open>
  \<^verbatim>\<open>AlpacaBroker.submit_order\<close>; the tools never pass \<^verbatim>\<open>client_order_id\<close>.
  \<^verbatim>\<open>not qty\<close> holds for \<^verbatim>\<open>None\<close> and for \<open>0.0\<close>.
\<close>

definition submit_order ::
  "sys \<Rightarrow> string \<Rightarrow> string \<Rightarrow> real option \<Rightarrow> real option \<Rightarrow> string \<Rightarrow> real option \<Rightarrow>
   real option \<Rightarrow> string \<Rightarrow> world \<Rightarrow> (exc + json) \<times> world" where
  "submit_order s sy side q n otype lim_price stp_price tif w =
     (if (q = None \<or> q = Some 0) \<and> n = None
      then (Inl (ValueError ''Either qty or notional must be provided''), w)
      else
        let payload =
              [(''symbol'', JStr sy), (''side'', JStr side), (''type'', JStr otype)]
              @ opt_field ''qty'' q
              @ opt_field ''notional'' n
              @ opt_field ''limit_price'' lim_price
              @ opt_field ''stop_price'' stp_price
              @ (if tif \<noteq> [] then [(''time_in_force'', JStr tif)] else [])
        in request s ''POST'' ''/v2/orders'' (Some (JObj payload)) w)"

subsection \<open>The daily risk state store\<close>

definition load_state :: "world \<Rightarrow> json" where
  "load_state w = (case state_file w of Missing \<Rightarrow> JObj [] | Corrupt \<Rightarrow> JObj [] | Doc j \<Rightarrow> j)"

text \<open>
  \<^verbatim>\<open>save_state\<close> rewrites the file with the serialised state; the file system is
  taken to accept the write.
\<close>

definition save_state :: "json \<Rightarrow> world \<Rightarrow> world" where
  "save_state state w = w\<lparr>state_file := Doc state\<rparr>"

definition today :: "sys \<Rightarrow> world \<Rightarrow> string" where
  "today s w = utc_date s (slept w)"

text \<open>
  \<^verbatim>\<open>get_or_init_day_state\<close>. A loaded document that is not an object, or whose
  \<^verbatim>\<open>"daily"\<close> entry is not an object, has no \<^verbatim>\<open>.get\<close>: AttributeError.
\<close>

definition get_or_init_day_state ::
  "sys \<Rightarrow> real \<Rightarrow> world \<Rightarrow> (exc + (string \<times> json) list) \<times> world" where
  "get_or_init_day_state s equity w =
     (case load_state w of
        JObj state \<Rightarrow>
          (case (case map_of state ''daily'' of None \<Rightarrow> JObj [] | Some d \<Rightarrow> d) of
             JObj day_state \<Rightarrow>
               if map_of day_state ''date'' \<noteq> Some (JStr (today s w))
               then
                 let day_state' = [(''date'', JStr (today s w)), (''equity_start'', JNum equity)]
                 in (Inr day_state',
                     save_state (JObj (AList.update ''daily'' (JObj day_state') state)) w)
               else (Inr day_state, w)
           | _ \<Rightarrow> (Inl AttributeError, w))
      | _ \<Rightarrow> (Inl AttributeError, w))"

subsection \<open>The limit evaluator\<close>

definition daily_loss_message :: "sys \<Rightarrow> real \<Rightarrow> real \<Rightarrow> string" where
  "daily_loss_message s drawdown max_loss_pct =
     ''Daily loss '' @ pct_float s drawdown @ '' exceeds MAX_DAILY_LOSS_PCT ''
       @ pct_float s max_loss_pct"

definition drawdown_of :: "real \<Rightarrow> real \<Rightarrow> real" where
  "drawdown_of equity_start equity = max 0 ((equity_start - equity) / equity_start)"

definition daily_loss_exceeded ::
  "sys \<Rightarrow> real option \<Rightarrow> world \<Rightarrow> (exc + string option) \<times> world" where
  "daily_loss_exceeded s equity w =
     (case equity of
        None \<Rightarrow> (Inr None, w)
      | Some eq \<Rightarrow>
          (case get_env_float s ''MAX_DAILY_LOSS_PCT'' of
             None \<Rightarrow> (Inr None, w)
           | Some max_loss_pct \<Rightarrow>
               (case get_or_init_day_state s eq w of
                  (Inl e, w1) \<Rightarrow> (Inl e, w1)
                | (Inr day_state, w1) \<Rightarrow>
                    let equity_start = dict_get day_state ''equity_start'' in
                    if \<not> truthy equity_start then (Inr None, w1)
                    else
                      (case py_num equity_start of
                         Inl e \<Rightarrow> (Inl e, w1)
                       | Inr es \<Rightarrow>
                           if drawdown_of es eq \<ge> max_loss_pct
                           then (Inr (Some (daily_loss_message s (drawdown_of es eq) max_loss_pct)), w1)
                           else (Inr None, w1)))))"

definition ensure_notional_limits :: "sys \<Rightarrow> real \<Rightarrow> real option \<Rightarrow> string option" where
  "ensure_notional_limits s n equity =
     (let max_notional = get_env_float s ''MAX_ORDER_NOTIONAL_USD'';
          max_pct = get_env_float s ''MAX_ORDER_PCT_EQUITY''
      in if max_notional \<noteq> None \<and> n > the max_notional
         then Some (''Order notional '' @ str_float s n @ '' exceeds MAX_ORDER_NOTIONAL_USD ''
                      @ str_float s (the max_notional))
         else if max_pct \<noteq> None \<and> equity \<noteq> None \<and> equity \<noteq> Some 0
                 \<and> n > the equity * the max_pct
         then Some (''Order notional '' @ str_float s n @ '' exceeds MAX_ORDER_PCT_EQUITY ''
                      @ str_float s (the max_pct))
         else None)"

definition ensure_position_limits :: "sys \<Rightarrow> real \<Rightarrow> real \<Rightarrow> real option \<Rightarrow> string option" where
  "ensure_position_limits s current_notional order_notional equity =
     (let max_pos_notional = get_env_float s ''MAX_POSITION_NOTIONAL_USD'';
          max_pos_pct = get_env_float s ''MAX_POSITION_PCT_EQUITY'';
          new_notional = current_notional + order_notional
      in if max_pos_notional \<noteq> None \<and> new_notional > the max_pos_notional
         then Some (''Position notional '' @ str_float s new_notional
                      @ '' exceeds MAX_POSITION_NOTIONAL_USD '' @ str_float s (the max_pos_notional))
         else if max_pos_pct \<noteq> None \<and> equity \<noteq> None \<and> equity \<noteq> Some 0
                 \<and> new_notional > the equity * the max_pos_pct
         then Some (''Position notional '' @ str_float s new_notional
                      @ '' exceeds MAX_POSITION_PCT_EQUITY '' @ str_float s (the max_pos_pct))
         else None)"

text \<open>
  The position lookups: the first position whose symbol matches decides. A value that
  is not a number gives 0.0 (ValueError is caught); a value of the wrong type raises
  TypeError, which is not caught.
\<close>

fun find_position :: "json list \<Rightarrow> string \<Rightarrow> (string \<times> json) list option" where
  "find_position [] sy = None"
| "find_position (JObj d # ps) sy =
     (if map_of d ''symbol'' = Some (JStr sy) then Some d else find_position ps sy)"
| "find_position (p # ps) sy = find_position ps sy"

definition float_or_zero :: "sys \<Rightarrow> json \<Rightarrow> exc + real" where
  "float_or_zero s v =
     (case py_float s v of
        Inl (ValueError m) \<Rightarrow> Inr 0
      | Inl e \<Rightarrow> Inl e
      | Inr r \<Rightarrow> Inr r)"

definition get_position_qty :: "sys \<Rightarrow> json \<Rightarrow> string \<Rightarrow> exc + real" where
  "get_position_qty s positions sy =
     (case positions of
        JArr ps \<Rightarrow>
          (case find_position ps sy of
             None \<Rightarrow> Inr 0
           | Some pos \<Rightarrow> float_or_zero s (dict_get0 pos ''qty''))
      | _ \<Rightarrow> Inr 0)"

definition get_position_notional :: "sys \<Rightarrow> json \<Rightarrow> string \<Rightarrow> exc + real" where
  "get_position_notional s positions sy =
     (case positions of
        JArr ps \<Rightarrow>
          (case find_position ps sy of
             None \<Rightarrow> Inr 0
           | Some pos \<Rightarrow> map_sum id abs (float_or_zero s (dict_get0 pos ''market_value'')))
      | _ \<Rightarrow> Inr 0)"

definition estimate_order_notional :: "real option \<Rightarrow> real option \<Rightarrow> real option \<Rightarrow> real option" where
  "estimate_order_notional q n price =
     (case n of
        Some v \<Rightarrow> Some v
      | None \<Rightarrow>
          (case q of
             None \<Rightarrow> None
           | Some qv \<Rightarrow> (case price of None \<Rightarrow> None | Some p \<Rightarrow> Some (qv * p))))"

subsection \<open>TWAP quantity and notional splitting\<close>

text \<open>Python's \<^verbatim>\<open>int(x)\<close> on a float truncates toward zero.\<close>

definition py_int :: "real \<Rightarrow> int" where
  "py_int x = (if 0 \<le> x then \<lfloor>x\<rfloor> else \<lceil>x\<rceil>)"

text \<open>
  \<^verbatim>\<open>for idx in range(remainder): quantities[idx] += 1.0\<close>; an index beyond the
  list would raise IndexError in Python, which cannot happen here because
  \<open>remainder < slices\<close>; the model leaves such a list unchanged.
\<close>

definition bump_first :: "nat \<Rightarrow> real list \<Rightarrow> real list" where
  "bump_first remainder quantities =
     fold (\<lambda>idx qs. if idx < length qs then qs[idx := qs ! idx + 1] else qs)
       [0..<remainder] quantities"

definition split_equity_qty :: "real \<Rightarrow> int \<Rightarrow> real list" where
  "split_equity_qty total_qty slices =
     (if slices \<le> 1 then [total_qty]
      else
        let base = py_int total_qty div slices;
            remainder = py_int total_qty mod slices
        in if base \<le> 0 then [real_of_int (py_int total_qty)]
           else filter (\<lambda>q. q > 0)
                  (bump_first (nat remainder) (replicate (nat slices) (real_of_int base))))"

definition split_notional :: "real \<Rightarrow> int \<Rightarrow> real list" where
  "split_notional total_notional slices =
     (if slices \<le> 1 then [total_notional]
      else replicate (nat slices) (total_notional / real_of_int slices))"

subsection \<open>The order router\<close>

definition error_result :: "string \<Rightarrow> json" where
  "error_result m = JObj [(''error'', JStr m)]"

text \<open>
  \<^verbatim>\<open>try: x = float(v) except (TypeError, ValueError): x = None\<close>, as the account's
  equity and buying power are read.
\<close>

definition float_opt :: "sys \<Rightarrow> json \<Rightarrow> real option" where
  "float_opt s v = (case py_float s v of Inl e \<Rightarrow> None | Inr r \<Rightarrow> Some r)"

definition limit_keys :: "string list" where
  "limit_keys =
     [''MAX_ORDER_NOTIONAL_USD'', ''MAX_ORDER_PCT_EQUITY'',
      ''MAX_POSITION_NOTIONAL_USD'', ''MAX_POSITION_PCT_EQUITY'']"

definition limits_configured :: "sys \<Rightarrow> bool" where
  "limits_configured s = list_ex (\<lambda>key. get_env_float s key \<noteq> None) limit_keys"

definition resolve_tif :: "order \<Rightarrow> string" where
  "resolve_tif a =
     (case time_in_force a of
        Some tif \<Rightarrow> tif
      | None \<Rightarrow> if asset_class a = ''crypto'' then ''gtc'' else ''day'')"

text \<open>
  \<^verbatim>\<open>try: return broker.submit_order(...) except Exception as exc: return {"error": str(exc)}\<close>,
  the last statement of both \<^verbatim>\<open>live_buy\<close> and \<^verbatim>\<open>live_sell\<close>.
\<close>

definition submit_caught :: "sys \<Rightarrow> string \<Rightarrow> order \<Rightarrow> world \<Rightarrow> (exc + json) \<times> world" where
  "submit_caught s side a w =
     (case submit_order s (symbol a) side (qty a) (notional a) (order_type a)
             (limit_price a) (stop_price a) (resolve_tif a) w of
        (Inl e, w1) \<Rightarrow> (Inr (error_result (str_exc e)), w1)
      | (Inr j, w1) \<Rightarrow> (Inr j, w1))"

definition alert_rejection :: "string \<Rightarrow> order \<Rightarrow> string \<Rightarrow> world \<Rightarrow> world" where
  "alert_rejection ty a details w =
     notify_alert ''risk_limit_triggered'' (risk_alert ty (symbol a) details) w"

text \<open>
  The block of \<^verbatim>\<open>live_buy\<close> under \<^verbatim>\<open>if order_notional is not None\<close>: the order
  limits, the buying power, then the position limits on freshly fetched positions; an
  order that passes is submitted.
\<close>

definition sizing_checks ::
  "sys \<Rightarrow> order \<Rightarrow> real \<Rightarrow> real option \<Rightarrow> real option \<Rightarrow> world \<Rightarrow> (exc + json) \<times> world" where
  "sizing_checks s a order_notional equity buying_power w =
     (case ensure_notional_limits s order_notional equity of
        Some limit_error \<Rightarrow>
          (Inr (error_result limit_error), alert_rejection ''order_notional'' a limit_error w)
      | None \<Rightarrow>
          if buying_power \<noteq> None \<and> order_notional > the buying_power
          then (Inr (JObj [(''error'', JStr ''Insufficient buying power''),
                           (''buying_power'', JNum (the buying_power))]),
                alert_rejection ''buying_power'' a ''Insufficient buying power'' w)
          else
            (case list_positions s w of
               (Inl e, w1) \<Rightarrow> (Inl e, w1)
             | (Inr positions, w1) \<Rightarrow>
                 (case get_position_notional s positions (symbol a) of
                    Inl e \<Rightarrow> (Inl e, w1)
                  | Inr current_notional \<Rightarrow>
                      (case ensure_position_limits s current_notional order_notional equity of
                         Some position_error \<Rightarrow>
                           (Inr (error_result position_error),
                            alert_rejection ''position_limit'' a position_error w1)
                       | None \<Rightarrow> submit_caught s ''buy'' a w1))))"

text \<open>
  \<^verbatim>\<open>live_buy\<close>. The messages of the limit evaluator are never empty, so
  \<^verbatim>\<open>if loss_error:\<close> and \<^verbatim>\<open>if limit_error:\<close> test for \<^verbatim>\<open>None\<close>; the test on
  the daily loss is written out as the source has it.
\<close>

definition live_buy :: "sys \<Rightarrow> order \<Rightarrow> world \<Rightarrow> (exc + json) \<times> world" where
  "live_buy s a w =
     (if qty a = None \<and> notional a = None
      then (Inr (error_result ''Either qty or notional must be provided''), w)
      else
        (case get_account s w of
           (Inl e, w1) \<Rightarrow> (Inl e, w1)
         | (Inr (JObj account), w1) \<Rightarrow>
             let equity = float_opt s (dict_get account ''equity'');
                 buying_power = float_opt s (dict_get account ''buying_power'');
                 order_notional = estimate_order_notional (qty a) (notional a) (estimated_price a)
             in if order_notional = None \<and> limits_configured s
                then (Inr (error_result
                        ''estimated_price is required when qty is used with notional limits''), w1)
                else
                  (case daily_loss_exceeded s equity w1 of
                     (Inl e, w2) \<Rightarrow> (Inl e, w2)
                   | (Inr loss_error, w2) \<Rightarrow>
                       if loss_error \<noteq> None \<and> the loss_error \<noteq> []
                       then (Inr (error_result (the loss_error)),
                             alert_rejection ''daily_loss'' a (the loss_error) w2)
                       else
                         (case order_notional of
                            Some n \<Rightarrow> sizing_checks s a n equity buying_power w2
                          | None \<Rightarrow> submit_caught s ''buy'' a w2))
         | (Inr other, w1) \<Rightarrow> (Inl AttributeError, w1)))"

definition allow_short :: "sys \<Rightarrow> bool" where
  "allow_short s =
     (lower (case getenv s ''ALLOW_SHORT'' of None \<Rightarrow> ''false'' | Some v \<Rightarrow> v) = ''true'')"

definition live_sell :: "sys \<Rightarrow> order \<Rightarrow> world \<Rightarrow> (exc + json) \<times> world" where
  "live_sell s a w =
     (if qty a = None \<and> notional a = None
      then (Inr (error_result ''Either qty or notional must be provided''), w)
      else if \<not> allow_short s \<and> qty a \<noteq> None
      then
        (case list_positions s w of
           (Inl e, w1) \<Rightarrow> (Inl e, w1)
         | (Inr positions, w1) \<Rightarrow>
             (case get_position_qty s positions (symbol a) of
                Inl e \<Rightarrow> (Inl e, w1)
              | Inr current_qty \<Rightarrow>
                  if the (qty a) > current_qty
                  then (Inr (JObj [(''error'', JStr ''Shorting disabled or insufficient position''),
                                   (''current_qty'', JNum current_qty)]), w1)
                  else submit_caught s ''sell'' a w1))
      else submit_caught s ''sell'' a w)"

definition live_place_order :: "sys \<Rightarrow> string \<Rightarrow> order \<Rightarrow> world \<Rightarrow> (exc + json) \<times> world" where
  "live_place_order s side a w =
     (if lower side \<notin> {''buy'', ''sell''} then (Inr (error_result ''side must be buy or sell''), w)
      else if lower side = ''buy'' then live_buy s a w
      else live_sell s a w)"

subsection \<open>The TWAP scheduler\<close>

definition sleep :: "int \<Rightarrow> world \<Rightarrow> world" where
  "sleep delay w = w\<lparr>slept := slept w + nat delay\<rparr>"

text \<open>
  The slice loop: each slice goes through the order router, its result is appended, and
  the scheduler sleeps when the delay is positive. An exception raised by a slice leaves
  the loop and the function.
\<close>

fun run_slices ::
  "(real \<Rightarrow> world \<Rightarrow> (exc + json) \<times> world) \<Rightarrow> int \<Rightarrow> real list \<Rightarrow> json list \<Rightarrow> world \<Rightarrow>
   (exc + json list) \<times> world" where
  "run_slices place delay [] results w = (Inr results, w)"
| "run_slices place delay (x # xs) results w =
     (case place x w of
        (Inl e, w1) \<Rightarrow> (Inl e, w1)
      | (Inr result, w1) \<Rightarrow>
          run_slices place delay xs (results @ [result])
            (if delay > 0 then sleep delay w1 else w1))"

definition twap_result :: "json list \<Rightarrow> json" where
  "twap_result results =
     JObj [(''slices'', JNum (real (length results))), (''results'', JArr results)]"

text \<open>\<^verbatim>\<open>x or default\<close> on an optional int.\<close>

definition int_or :: "int option \<Rightarrow> int \<Rightarrow> int" where
  "int_or x d = (case x of None \<Rightarrow> d | Some n \<Rightarrow> if n = 0 then d else n)"

definition place_qty :: "sys \<Rightarrow> string \<Rightarrow> order \<Rightarrow> real \<Rightarrow> world \<Rightarrow> (exc + json) \<times> world" where
  "place_qty s side a slice_qty w =
     (let child = a\<lparr>qty := Some slice_qty, notional := None\<rparr>
      in if side = ''buy'' then live_buy s child w else live_sell s child w)"

definition place_notional :: "sys \<Rightarrow> string \<Rightarrow> order \<Rightarrow> real \<Rightarrow> world \<Rightarrow> (exc + json) \<times> world" where
  "place_notional s side a slice_notional w =
     (let child = a\<lparr>qty := None, notional := Some slice_notional, estimated_price := None\<rparr>
      in if side = ''buy'' then live_buy s child w else live_sell s child w)"

definition finish_twap :: "(exc + json list) \<times> world \<Rightarrow> (exc + json) \<times> world" where
  "finish_twap r = (case r of (Inl e, w) \<Rightarrow> (Inl e, w) | (Inr results, w) \<Rightarrow> (Inr (twap_result results), w))"

definition live_twap_order ::
  "sys \<Rightarrow> string \<Rightarrow> order \<Rightarrow> int option \<Rightarrow> int option \<Rightarrow> world \<Rightarrow> (exc + json) \<times> world" where
  "live_twap_order s side0 a slices interval_seconds w =
     (let side = lower side0 in
      if side \<notin> {''buy'', ''sell''} then (Inr (error_result ''side must be buy or sell''), w)
      else if qty a = None \<and> notional a = None
      then (Inr (error_result ''Either qty or notional must be provided''), w)
      else
        let slice_count = int_or slices (get_env_int s ''TWAP_SLICES'' 4);
            delay = int_or interval_seconds (get_env_int s ''TWAP_INTERVAL_SECONDS'' 15)
        in case qty a of
             Some q \<Rightarrow>
               if asset_class a = ''equity''
               then finish_twap (run_slices (place_qty s side a) delay
                                   (split_equity_qty q slice_count) [] w)
               else if slice_count = 0 then (Inl ZeroDivisionError, w)
               else finish_twap (run_slices (place_qty s side a) delay
                                   (replicate (nat slice_count) (q / real_of_int slice_count)) [] w)
           | None \<Rightarrow>
               finish_twap (run_slices (place_notional s side a) delay
                              (split_notional (the (notional a)) slice_count) [] w))"

section \<open>Specification-side definitions\<close>

subsection \<open>The daily baseline, as the specification words it\<close>

text \<open>
  The store is in order when the persisted document is absent, unreadable, or a state
  object whose \<^verbatim>\<open>"daily"\<close> entry, if present, is an object: the documents that
  \<^verbatim>\<open>save_state\<close> writes.
\<close>

definition store_ok :: "world \<Rightarrow> bool" where
  "store_ok w =
     (case load_state w of
        JObj state \<Rightarrow>
          (case map_of state ''daily'' of
             None \<Rightarrow> True
           | Some (JObj d) \<Rightarrow> True
           | Some other \<Rightarrow> False)
      | _ \<Rightarrow> False)"

definition stored_state :: "world \<Rightarrow> (string \<times> json) list" where
  "stored_state w = (case load_state w of JObj state \<Rightarrow> state | _ \<Rightarrow> [])"

definition stored_daily :: "world \<Rightarrow> (string \<times> json) list" where
  "stored_daily w = (case map_of (stored_state w) ''daily'' of Some (JObj d) \<Rightarrow> d | _ \<Rightarrow> [])"

definition fresh_baseline :: "sys \<Rightarrow> real \<Rightarrow> world \<Rightarrow> (string \<times> json) list" where
  "fresh_baseline s equity_now w =
     [(''date'', JStr (today s w)), (''equity_start'', JNum equity_now)]"

text \<open>
  \<open>get_or_init\<close> of the specification: the stored baseline if its date is today,
  otherwise a fresh one.
\<close>

definition spec_day_state :: "sys \<Rightarrow> real \<Rightarrow> world \<Rightarrow> (string \<times> json) list" where
  "spec_day_state s equity_now w =
     (if map_of (stored_daily w) ''date'' = Some (JStr (today s w)) then stored_daily w
      else fresh_baseline s equity_now w)"

subsection \<open>Unsetting an environment variable\<close>

definition risk_keys :: "string list" where
  "risk_keys = ''MAX_DAILY_LOSS_PCT'' # limit_keys"

definition unset :: "string \<Rightarrow> sys \<Rightarrow> sys" where
  "unset key s = s\<lparr>getenv := (getenv s)(key := None)\<rparr>"


subsection \<open>The ordered checks of the limit evaluator, as the specification words them\<close>









section \<open>Concrete systems for the examples\<close>

text \<open>
  A system with credentials, no other setting than those given, a float parser that
  knows the numerals of the examples, and a fixed UTC date.
\<close>

definition test_floats :: "string \<Rightarrow> real option" where
  "test_floats =
     map_of [(''0.05'', 5 / 100), (''5'', 5), (''1000'', 1000), (''10000'', 10000),
             (''9500'', 9500), (''9501'', 9501), (''9000'', 9000)]"

definition test_sys :: "(string \<times> string) list \<Rightarrow> (nat \<Rightarrow> request \<Rightarrow> reply) \<Rightarrow> sys" where
  "test_sys env srv =
     \<lparr>getenv = map_of ([(''ALPACA_API_KEY'', ''key''), (''ALPACA_API_SECRET'', ''secret'')] @ env),
      float_of_str = test_floats,
      int_of_str = (\<lambda>t. None),
      str_float = (\<lambda>r. ''<float>''),
      pct_float = (\<lambda>r. ''<pct>''),
      http = srv,
      utc_date = (\<lambda>t. ''2024-01-02'')\<rparr>"

definition fresh_world :: world where
  "fresh_world = \<lparr>log = [], alerts = [], state_file = Missing, slept = 0\<rparr>"

definition market_order :: "string \<Rightarrow> real option \<Rightarrow> real option \<Rightarrow> order" where
  "market_order sy q n =
     \<lparr>symbol = sy, qty = q, notional = n, estimated_price = None, order_type = ''market'',
      limit_price = None, stop_price = None, time_in_force = None, asset_class = ''equity''\<rparr>"

text \<open>A world whose risk state was recorded the day before, with a baseline of 10000.\<close>

definition stale_world :: world where
  "stale_world =
     fresh_world\<lparr>state_file :=
       Doc (JObj [(''daily'', JObj [(''date'', JStr ''2024-01-01''),
                                    (''equity_start'', JNum 10000)])])\<rparr>"


text \<open>A broker that answers every request with an error status.\<close>

definition broker_down :: "nat \<Rightarrow> request \<Rightarrow> reply" where
  "broker_down k r = Not_ok 500 ''down''"

text \<open>
  A broker that serves the given account and positions and accepts every order while
  fewer than \<open>limit\<close> requests were sent before; from then on it is down.
\<close>

definition broker_until ::
  "nat \<Rightarrow> (string \<times> json) list \<Rightarrow> json list \<Rightarrow> nat \<Rightarrow> request \<Rightarrow> reply" where
  "broker_until limit account positions k r =
     (if k \<ge> limit then Not_ok 503 ''unavailable''
      else if meth r = ''POST'' then Ok_json (JObj [(''status'', JStr ''accepted'')])
      else if url r = ''https://paper-api.alpaca.markets/v2/account'' then Ok_json (JObj account)
      else Ok_json (JArr positions))"

text \<open>A position list holding five shares of AAPL, and a system whose broker serves it.\<close>

definition five_aapl :: "json list" where
  "five_aapl = [JObj [(''symbol'', JStr ''AAPL''), (''qty'', JStr ''5'')]]"

definition holding_sys :: sys where
  "holding_sys = test_sys [] (broker_until 10 [] five_aapl)"

text \<open>
  A system with an order limit of 1000 and a daily loss limit of 5 percent, whose broker
  reports the given equity, no buying power and no positions.
\<close>

definition limited_sys :: "string \<Rightarrow> sys" where
  "limited_sys equity =
     test_sys [(''MAX_ORDER_NOTIONAL_USD'', ''1000''), (''MAX_DAILY_LOSS_PCT'', ''0.05'')]
       (broker_until 10 [(''equity'', JStr equity)] [])"

text \<open>
  A system without limits whose broker, with an empty account and no positions, goes
  down after the given number of requests.
\<close>

definition failing_sys :: "nat \<Rightarrow> sys" where
  "failing_sys k = test_sys [] (broker_until k [] [])"

section \<open>Properties\<close>

subsection \<open>Splitting a quantity into whole-unit slices\<close>

lemma bump_first_replicate:
  "r \<le> n \<Longrightarrow> bump_first r (replicate n b) = replicate r (b + 1) @ replicate (n - r) b"
proof (induction r)
  case 0
  then show ?case by (simp add: bump_first_def)
next
  case (Suc r)
  then obtain m where m: "n - r = Suc m" "n - Suc r = m"
    by (metis Suc_diff_Suc Suc_le_lessD)
  from Suc have "bump_first (Suc r) (replicate n b)
      = (replicate r (b + 1) @ replicate (n - r) b)
          [r := (replicate r (b + 1) @ replicate (n - r) b) ! r + 1]"
    by (simp add: bump_first_def)
  also have "\<dots> = replicate (Suc r) (b + 1) @ replicate (n - Suc r) b"
    using m by (simp add: list_update_append nth_append replicate_append_same)
  finally show ?case .
qed

lemma split_equity_qty_shape:
  assumes "2 \<le> slices" "0 < py_int q div slices"
  shows "split_equity_qty q slices =
     replicate (nat (py_int q mod slices)) (real_of_int (py_int q div slices) + 1)
     @ replicate (nat slices - nat (py_int q mod slices)) (real_of_int (py_int q div slices))"
proof -
  have r: "nat (py_int q mod slices) \<le> nat slices"
    using assms(1) by (simp add: nat_le_eq_zle less_imp_le)
  show ?thesis
    using assms by (simp add: split_equity_qty_def Let_def bump_first_replicate [OF r])
qed






subsection \<open>The daily baseline is written once per day\<close>

lemma map_of_update_same: "map_of (AList.update k v al) k = Some v"
  by (simp add: update_conv')

lemma store_ok_cases:
  assumes "store_ok w"
  obtains st where "load_state w = JObj st" "map_of st ''daily'' = None"
  | st d where "load_state w = JObj st" "map_of st ''daily'' = Some (JObj d)"
proof (cases "load_state w")
  case (JObj st)
  show ?thesis
  proof (cases "map_of st ''daily''")
    case None
    with JObj that(1) show ?thesis by simp
  next
    case (Some v)
    with JObj assms obtain d where "v = JObj d"
      by (cases v) (simp_all add: store_ok_def)
    with JObj Some that(2) show ?thesis by simp
  qed
qed (use assms in \<open>simp_all add: store_ok_def\<close>)

lemma get_or_init_day_state_spec:
  assumes "store_ok w"
  shows "get_or_init_day_state s e w =
     (Inr (spec_day_state s e w),
      if map_of (stored_daily w) ''date'' = Some (JStr (today s w)) then w
      else save_state (JObj (AList.update ''daily'' (JObj (fresh_baseline s e w)) (stored_state w))) w)"
  using assms
  by (rule store_ok_cases)
     (simp_all add: get_or_init_day_state_def spec_day_state_def stored_daily_def
        stored_state_def fresh_baseline_def Let_def)

lemma after_init:
  assumes "store_ok w" "state_file w2 = state_file (snd (get_or_init_day_state s e w))"
    "today s w2 = today s w"
  shows "store_ok w2 \<and> stored_daily w2 = spec_day_state s e w"
  using assms
  by (auto simp: get_or_init_day_state_spec spec_day_state_def store_ok_def stored_daily_def
      stored_state_def load_state_def save_state_def map_of_update_same fresh_baseline_def
      split: if_splits json.splits option.splits risk_file.splits)

text \<open>
  C7: \<^verbatim>\<open>get_or_init_day_state\<close> is write-once per calendar day. On a store that
  is in order the call returns the baseline of the specification; every later call on
  the same day, whatever equity it is given, returns that same baseline and leaves the
  world as it is. When the stored date is today the stored baseline is returned and
  nothing is written; when it differs (or nothing is stored) the baseline is
  \<open>{date: today, equity_start: equity_now}\<close>, and the world returned already holds
  the state with that baseline in place of the prior one.
\<close>

theorem get_or_init_day_state_write_once:
  assumes "store_ok w"
  shows "fst (get_or_init_day_state s e1 w) = Inr (spec_day_state s e1 w) \<and>
    (\<forall>w2 e2. state_file w2 = state_file (snd (get_or_init_day_state s e1 w)) \<and> today s w2 = today s w
       \<longrightarrow> get_or_init_day_state s e2 w2 = (Inr (spec_day_state s e1 w), w2)) \<and>
    (map_of (stored_daily w) ''date'' = Some (JStr (today s w)) \<longrightarrow>
       spec_day_state s e1 w = stored_daily w \<and> snd (get_or_init_day_state s e1 w) = w) \<and>
    (map_of (stored_daily w) ''date'' \<noteq> Some (JStr (today s w)) \<longrightarrow>
       spec_day_state s e1 w = [(''date'', JStr (today s w)), (''equity_start'', JNum e1)] \<and>
       snd (get_or_init_day_state s e1 w) =
         w\<lparr>state_file := Doc (JObj (AList.update ''daily''
              (JObj [(''date'', JStr (today s w)), (''equity_start'', JNum e1)]) (stored_state w)))\<rparr>)"
proof (intro conjI allI impI)
  show "fst (get_or_init_day_state s e1 w) = Inr (spec_day_state s e1 w)"
    using assms by (simp add: get_or_init_day_state_spec)
next
  fix w2 e2
  assume a: "state_file w2 = state_file (snd (get_or_init_day_state s e1 w)) \<and> today s w2 = today s w"
  then have ok: "store_ok w2" and d: "stored_daily w2 = spec_day_state s e1 w"
    using after_init [OF assms, of w2 s e1] by simp_all
  have "map_of (spec_day_state s e1 w) ''date'' = Some (JStr (today s w))"
    by (simp add: spec_day_state_def fresh_baseline_def)
  then show "get_or_init_day_state s e2 w2 = (Inr (spec_day_state s e1 w), w2)"
    using a d by (simp add: get_or_init_day_state_spec [OF ok] spec_day_state_def)
qed (use assms in \<open>simp_all add: get_or_init_day_state_spec spec_day_state_def fresh_baseline_def save_state_def\<close>)


theorem get_or_init_day_state_write_once_witness:
  "store_ok stale_world \<and>
   fst (get_or_init_day_state (test_sys [] broker_down) 9000 stale_world)
     = Inr [(''date'', JStr ''2024-01-02''), (''equity_start'', JNum 9000)] \<and>
   get_or_init_day_state (test_sys [] broker_down) 8000
       (snd (get_or_init_day_state (test_sys [] broker_down) 9000 stale_world))
     = (Inr [(''date'', JStr ''2024-01-02''), (''equity_start'', JNum 9000)],
        stale_world\<lparr>state_file :=
          Doc (JObj [(''daily'', JObj [(''date'', JStr ''2024-01-02''),
                                       (''equity_start'', JNum 9000)])])\<rparr>)"
proof -
  let ?s = "test_sys [] broker_down"
  have ok: "store_ok stale_world"
    by (simp add: store_ok_def stale_world_def fresh_world_def load_state_def)
  have day: "today ?s stale_world = ''2024-01-02''"
    by (simp add: today_def test_sys_def)
  have daily: "stored_daily stale_world
      = [(''date'', JStr ''2024-01-01''), (''equity_start'', JNum 10000)]"
    and st: "stored_state stale_world = [(''daily'', JObj [(''date'', JStr ''2024-01-01''), (''equity_start'', JNum 10000)])]"
    by (simp_all add: stored_daily_def stored_state_def stale_world_def fresh_world_def
        load_state_def)
  have spec: "spec_day_state ?s 9000 stale_world
      = [(''date'', JStr ''2024-01-02''), (''equity_start'', JNum 9000)]"
    by (simp add: spec_day_state_def daily day fresh_baseline_def)
  note t = get_or_init_day_state_write_once [OF ok, of ?s 9000]
  from t have r1: "fst (get_or_init_day_state ?s 9000 stale_world) = Inr (spec_day_state ?s 9000 stale_world)"
    by (rule conjunct1)
  from t have w1: "snd (get_or_init_day_state ?s 9000 stale_world) =
      stale_world\<lparr>state_file := Doc (JObj [(''daily'', JObj [(''date'', JStr ''2024-01-02''),
                                       (''equity_start'', JNum 9000)])])\<rparr>"
    by (simp add: daily day st)
  from t have "\<forall>w2 e2. state_file w2 = state_file (snd (get_or_init_day_state ?s 9000 stale_world))
        \<and> today ?s w2 = today ?s stale_world
      \<longrightarrow> get_or_init_day_state ?s e2 w2 = (Inr (spec_day_state ?s 9000 stale_world), w2)"
    by (rule conjunct1 [OF conjunct2])
  then have "get_or_init_day_state ?s 8000 (snd (get_or_init_day_state ?s 9000 stale_world))
      = (Inr (spec_day_state ?s 9000 stale_world), snd (get_or_init_day_state ?s 9000 stale_world))"
    using w1 by (simp add: today_def)
  with ok r1 w1 spec show ?thesis by simp
qed

subsection \<open>A malformed limit is no limit\<close>

lemma unset_fields [simp]:
  "float_of_str (unset key s) = float_of_str s"
  "int_of_str (unset key s) = int_of_str s"
  "str_float (unset key s) = str_float s"
  "pct_float (unset key s) = pct_float s"
  "http (unset key s) = http s"
  "utc_date (unset key s) = utc_date s"
  "getenv (unset key s) k = (if k = key then None else getenv s k)"
  by (simp_all add: unset_def)

lemma get_env_float_unset:
  assumes "getenv s key = Some v" "float_of_str s v = None"
  shows "get_env_float (unset key s) = get_env_float s"
  using assms by (auto simp: get_env_float_def fun_eq_iff split: option.splits)

lemma risk_key_not_broker:
  assumes "key \<in> set risk_keys"
  shows "key \<noteq> ''ALPACA_API_KEY''" "key \<noteq> ''ALPACA_API_SECRET''" "key \<noteq> ''ALPACA_BASE_URL''"
  using assms by (auto simp: risk_keys_def limit_keys_def)

lemma has_credentials_unset:
  assumes "key \<in> set risk_keys"
  shows "has_credentials (unset key s) = has_credentials s"
  using risk_key_not_broker [OF assms] by (simp add: has_credentials_def)

lemma base_url_unset:
  assumes "key \<in> set risk_keys"
  shows "base_url (unset key s) = base_url s"
  using risk_key_not_broker [OF assms] by (simp add: base_url_def)

lemma request_unset:
  assumes "key \<in> set risk_keys"
  shows "request (unset key s) = request s"
  by (simp add: request_def fun_eq_iff has_credentials_unset [OF assms]
      base_url_unset [OF assms])

lemma py_float_unset: "py_float (unset key s) v = py_float s v"
  by (cases v) simp_all

lemma today_unset: "today (unset key s) = today s"
  by (simp add: today_def fun_eq_iff)

lemma get_or_init_day_state_unset: "get_or_init_day_state (unset key s) = get_or_init_day_state s"
  unfolding get_or_init_day_state_def today_unset by (rule refl)

lemma daily_loss_message_unset: "daily_loss_message (unset key s) = daily_loss_message s"
  by (simp add: daily_loss_message_def fun_eq_iff)

lemma ensure_notional_limits_unset:
  assumes "getenv s key = Some v" "float_of_str s v = None"
  shows "ensure_notional_limits (unset key s) = ensure_notional_limits s"
  unfolding ensure_notional_limits_def get_env_float_unset [OF assms] unset_fields
  by (rule refl)

lemma ensure_position_limits_unset:
  assumes "getenv s key = Some v" "float_of_str s v = None"
  shows "ensure_position_limits (unset key s) = ensure_position_limits s"
  unfolding ensure_position_limits_def get_env_float_unset [OF assms] unset_fields
  by (rule refl)

lemma limits_configured_unset:
  assumes "getenv s key = Some v" "float_of_str s v = None"
  shows "limits_configured (unset key s) = limits_configured s"
  by (simp add: limits_configured_def get_env_float_unset [OF assms])

lemma daily_loss_exceeded_unset:
  assumes "getenv s key = Some v" "float_of_str s v = None"
  shows "daily_loss_exceeded (unset key s) = daily_loss_exceeded s"
  unfolding daily_loss_exceeded_def get_env_float_unset [OF assms]
    get_or_init_day_state_unset daily_loss_message_unset
  by (rule refl)

lemma submit_order_unset:
  assumes "key \<in> set risk_keys"
  shows "submit_order (unset key s) = submit_order s"
  unfolding submit_order_def request_unset [OF assms] by (rule refl)

lemma submit_caught_unset:
  assumes "key \<in> set risk_keys"
  shows "submit_caught (unset key s) = submit_caught s"
  unfolding submit_caught_def submit_order_unset [OF assms] by (rule refl)

lemma float_or_zero_unset: "float_or_zero (unset key s) = float_or_zero s"
  by (simp add: float_or_zero_def fun_eq_iff py_float_unset)

lemma get_position_notional_unset: "get_position_notional (unset key s) = get_position_notional s"
  unfolding get_position_notional_def float_or_zero_unset by (rule refl)

lemma get_position_qty_unset: "get_position_qty (unset key s) = get_position_qty s"
  unfolding get_position_qty_def float_or_zero_unset by (rule refl)

lemma float_opt_unset: "float_opt (unset key s) = float_opt s"
  by (simp add: float_opt_def fun_eq_iff py_float_unset)

lemma sizing_checks_unset:
  assumes "key \<in> set risk_keys" "getenv s key = Some v" "float_of_str s v = None"
  shows "sizing_checks (unset key s) = sizing_checks s"
  unfolding sizing_checks_def ensure_notional_limits_unset [OF assms(2,3)]
    ensure_position_limits_unset [OF assms(2,3)] submit_caught_unset [OF assms(1)]
    list_positions_def request_unset [OF assms(1)] get_position_notional_unset
  by (rule refl)

lemma live_buy_unset:
  assumes "key \<in> set risk_keys" "getenv s key = Some v" "float_of_str s v = None"
  shows "live_buy (unset key s) = live_buy s"
  unfolding live_buy_def get_account_def request_unset [OF assms(1)] float_opt_unset
    limits_configured_unset [OF assms(2,3)] daily_loss_exceeded_unset [OF assms(2,3)]
    sizing_checks_unset [OF assms] submit_caught_unset [OF assms(1)]
  by (rule refl)

text \<open>
  C10: a risk-limit variable that is present but does not parse as a number reads as
  \<open>None\<close> (no exception, no zero), and every reader of the limits, the limit evaluator
  and \<^verbatim>\<open>live_buy\<close> as a whole behave exactly as in the system where the variable
  is not set: the limit is disabled.
\<close>

theorem malformed_limit_is_unset:
  assumes "key \<in> set risk_keys" "getenv s key = Some v" "float_of_str s v = None"
  shows "get_env_float s key = None \<and>
    get_env_float (unset key s) = get_env_float s \<and>
    ensure_notional_limits s n e = ensure_notional_limits (unset key s) n e \<and>
    ensure_position_limits s c n e = ensure_position_limits (unset key s) c n e \<and>
    daily_loss_exceeded s e w = daily_loss_exceeded (unset key s) e w \<and>
    limits_configured s = limits_configured (unset key s) \<and>
    live_buy s a w = live_buy (unset key s) a w"
proof -
  have "get_env_float s key = None"
    using assms(2,3) by (simp add: get_env_float_def)
  then show ?thesis
    using assms
    by (simp add: get_env_float_unset ensure_notional_limits_unset ensure_position_limits_unset
        daily_loss_exceeded_unset limits_configured_unset live_buy_unset)
qed


theorem malformed_limit_is_unset_witness:
  "''MAX_ORDER_NOTIONAL_USD'' \<in> set risk_keys \<and>
   getenv (test_sys [(''MAX_ORDER_NOTIONAL_USD'', ''abc'')] broker_down) ''MAX_ORDER_NOTIONAL_USD''
     = Some ''abc'' \<and>
   float_of_str (test_sys [(''MAX_ORDER_NOTIONAL_USD'', ''abc'')] broker_down) ''abc'' = None \<and>
   get_env_float (test_sys [(''MAX_ORDER_NOTIONAL_USD'', ''abc'')] broker_down)
     ''MAX_ORDER_NOTIONAL_USD'' = None \<and>
   ensure_notional_limits (test_sys [(''MAX_ORDER_NOTIONAL_USD'', ''abc'')] broker_down) 50000 None
     = None \<and>
   live_buy (test_sys [(''MAX_ORDER_NOTIONAL_USD'', ''abc'')] broker_down)
       (market_order ''AAPL'' None (Some 50000)) fresh_world
     = live_buy (unset ''MAX_ORDER_NOTIONAL_USD''
                  (test_sys [(''MAX_ORDER_NOTIONAL_USD'', ''abc'')] broker_down))
         (market_order ''AAPL'' None (Some 50000)) fresh_world"
proof -
  let ?s = "test_sys [(''MAX_ORDER_NOTIONAL_USD'', ''abc'')] broker_down"
  have k: "''MAX_ORDER_NOTIONAL_USD'' \<in> set risk_keys"
    by (simp add: risk_keys_def limit_keys_def)
  have g: "getenv ?s ''MAX_ORDER_NOTIONAL_USD'' = Some ''abc''"
    by (simp add: test_sys_def)
  have f: "float_of_str ?s ''abc'' = None"
    by (simp add: test_sys_def test_floats_def)
  have u: "get_env_float (unset ''MAX_ORDER_NOTIONAL_USD'' ?s) = (\<lambda>k. None)"
    by (auto simp: get_env_float_def fun_eq_iff test_sys_def test_floats_def)
  have "ensure_notional_limits (unset ''MAX_ORDER_NOTIONAL_USD'' ?s) 50000 None = None"
    by (simp add: ensure_notional_limits_def u)
  with k g f show ?thesis
    using malformed_limit_is_unset [OF k g f, of 50000 None 0 fresh_world "market_order ''AAPL'' None (Some 50000)"]
    by simp
qed

subsection \<open>The short-sale guard\<close>

lemma request_world:
  "snd (request s m p b w) = w \<or>
   snd (request s m p b w) = w\<lparr>log := log w @ [Request m (base_url s @ p) b]\<rparr>"
  by (simp add: request_def Let_def split: reply.splits)

lemma request_alerts: "request s m p b w = (r, w1) \<Longrightarrow> alerts w1 = alerts w"
  using request_world [of s m p b w] by auto

lemma submit_order_alerts:
  "submit_order s sy side q n ot lp sp tif w = (r, w1) \<Longrightarrow> alerts w1 = alerts w"
  by (auto simp: submit_order_def Let_def dest: request_alerts split: if_splits)

lemma submit_caught_alerts:
  assumes "submit_caught s side a w = (r, w1)"
  shows "alerts w1 = alerts w"
proof (cases "submit_order s (symbol a) side (qty a) (notional a) (order_type a)
             (limit_price a) (stop_price a) (resolve_tif a) w")
  case (Pair r0 w0)
  then have "alerts w0 = alerts w" by (rule submit_order_alerts)
  moreover have "w1 = w0"
    using assms Pair by (cases r0) (simp_all add: submit_caught_def)
  ultimately show ?thesis by simp
qed

lemma live_sell_unguarded:
  assumes "qty a \<noteq> None \<or> notional a \<noteq> None" "allow_short s \<or> qty a = None"
  shows "live_sell s a w = submit_caught s ''sell'' a w"
  using assms by (auto simp: live_sell_def)

lemma live_sell_guarded:
  assumes "\<not> allow_short s" "qty a = Some q"
  shows "live_sell s a w =
     (case list_positions s w of
        (Inl e, w1) \<Rightarrow> (Inl e, w1)
      | (Inr positions, w1) \<Rightarrow>
          (case get_position_qty s positions (symbol a) of
             Inl e \<Rightarrow> (Inl e, w1)
           | Inr current_qty \<Rightarrow>
               if q > current_qty
               then (Inr (JObj [(''error'', JStr ''Shorting disabled or insufficient position''),
                                (''current_qty'', JNum current_qty)]), w1)
               else submit_caught s ''sell'' a w1))"
  using assms by (simp add: live_sell_def cong: prod.case_cong sum.case_cong)

lemma live_sell_alerts:
  assumes "live_sell s a w = (r, w1)"
  shows "alerts w1 = alerts w"
proof (cases "qty a = None \<and> notional a = None")
  case True
  with assms show ?thesis by (simp add: live_sell_def)
next
  case size: False
  show ?thesis
  proof (cases "\<not> allow_short s \<and> qty a \<noteq> None")
    case False
    with size have "live_sell s a w = submit_caught s ''sell'' a w"
      by (intro live_sell_unguarded) auto
    with assms show ?thesis by (simp add: submit_caught_alerts)
  next
    case True
    then obtain q where q: "\<not> allow_short s" "qty a = Some q" by auto
    note eq = live_sell_guarded [OF q, of w]
    obtain r0 w0 where p: "list_positions s w = (r0, w0)"
      by (cases "list_positions s w")
    then have a0: "alerts w0 = alerts w"
      by (simp add: list_positions_def request_alerts)
    show ?thesis
    proof (cases r0)
      case (Inl e)
      with assms eq p a0 show ?thesis by simp
    next
      case (Inr positions)
      show ?thesis
      proof (cases "get_position_qty s positions (symbol a)")
        case (Inl e)
        with assms eq p a0 Inr show ?thesis by simp
      next
        case held: (Inr current_qty)
        show ?thesis
        proof (cases "q > current_qty")
          case True
          with assms eq p a0 Inr held show ?thesis by simp
        next
          case False
          with assms eq p Inr held have "submit_caught s ''sell'' a w0 = (r, w1)"
            by simp
          then have "alerts w1 = alerts w0" by (rule submit_caught_alerts)
          with a0 show ?thesis by simp
        qed
      qed
    qed
  qed
qed




lemma holding_sys_simps:
  "has_credentials holding_sys"
  "base_url holding_sys = ''https://paper-api.alpaca.markets''"
  "\<not> allow_short holding_sys"
  "http holding_sys = broker_until 10 [] five_aapl"
  "float_of_str holding_sys ''5'' = Some 5"
  by (simp_all add: holding_sys_def test_sys_def has_credentials_def base_url_def allow_short_def
      test_floats_def lower_def)

lemma holding_positions:
  "list_positions holding_sys fresh_world =
     (Inr (JArr five_aapl),
      fresh_world\<lparr>log := [Request ''GET'' ''https://paper-api.alpaca.markets/v2/positions'' None]\<rparr>)"
  by (simp add: list_positions_def request_def holding_sys_simps broker_until_def
      fresh_world_def)

lemma holding_qty: "get_position_qty holding_sys (JArr five_aapl) ''AAPL'' = Inr 5"
  by (simp add: get_position_qty_def five_aapl_def float_or_zero_def dict_get0_def
      holding_sys_simps)




text \<open>
  C1 asks that a sell rejected by the short-sale guard notifies the alert sink. The code
  does not: with five shares held and shorting disabled, a sell of eight is rejected and
  no alert is recorded; indeed \<^verbatim>\<open>live_sell\<close> never adds an alert, whatever its
  input.
\<close>

theorem live_sell_rejection_raises_no_alert:
  "live_sell holding_sys (market_order ''AAPL'' (Some 8) None) fresh_world
     = (Inr (JObj [(''error'', JStr ''Shorting disabled or insufficient position''),
                   (''current_qty'', JNum 5)]),
        fresh_world\<lparr>log := [Request ''GET'' ''https://paper-api.alpaca.markets/v2/positions'' None]\<rparr>) \<and>
   alerts (snd (live_sell holding_sys (market_order ''AAPL'' (Some 8) None) fresh_world)) = [] \<and>
   alerts (snd (live_sell s a w)) = alerts w"
proof -
  have "live_sell holding_sys (market_order ''AAPL'' (Some 8) None) fresh_world
     = (Inr (JObj [(''error'', JStr ''Shorting disabled or insufficient position''),
                   (''current_qty'', JNum 5)]),
        fresh_world\<lparr>log := [Request ''GET'' ''https://paper-api.alpaca.markets/v2/positions'' None]\<rparr>)"
    by (simp add: live_sell_def holding_sys_simps holding_positions holding_qty market_order_def)
  moreover have "alerts (snd (live_sell s a w)) = alerts w" for s a w
    by (cases "live_sell s a w") (simp add: live_sell_alerts)
  ultimately show ?thesis by (simp add: fresh_world_def)
qed

subsection \<open>Failing closed on an order of unknown notional\<close>


lemma limits_configured_key:
  assumes "key \<in> set limit_keys" "get_env_float s key = Some m"
  shows "limits_configured s"
  using assms by (auto simp: limits_configured_def list_ex_iff)

lemma get_account_log:
  assumes "get_account s w = (r, w1)"
  shows "(\<forall>q \<in> set (log w1). q \<in> set (log w) \<or> meth q = ''GET'')
    \<and> alerts w1 = alerts w \<and> state_file w1 = state_file w"
  using assms request_world [of s "''GET''" "''/v2/account''" None w]
  by (auto simp: get_account_def)

text \<open>
  C5: a buy that gives a quantity but neither a notional nor an estimated price, while
  one of the four order or position limits is configured, is rejected as soon as the
  account snapshot is in: the result is the error (or the exception of the account fetch
  itself), no request other than a GET was sent, so no order was submitted, and neither
  the alerts nor the risk state changed.
\<close>

theorem unestimable_order_fails_closed:
  assumes "notional a = None" "qty a = Some q" "estimated_price a = None"
    and "key \<in> set limit_keys" "get_env_float s key = Some m"
  shows "live_buy s a w =
      (case get_account s w of
         (Inl e, w1) \<Rightarrow> (Inl e, w1)
       | (Inr (JObj account), w1) \<Rightarrow>
           (Inr (error_result
              ''estimated_price is required when qty is used with notional limits''), w1)
       | (Inr other, w1) \<Rightarrow> (Inl AttributeError, w1)) \<and>
    (\<forall>r \<in> set (log (snd (live_buy s a w))). r \<in> set (log w) \<or> meth r = ''GET'') \<and>
    alerts (snd (live_buy s a w)) = alerts w \<and>
    state_file (snd (live_buy s a w)) = state_file w"
proof -
  have on: "estimate_order_notional (qty a) (notional a) (estimated_price a) = None"
    using assms(1-3) by (simp add: estimate_order_notional_def)
  have lc: "limits_configured s"
    using assms(4,5) by (rule limits_configured_key)
  obtain r w1 where acct: "get_account s w = (r, w1)"
    by (cases "get_account s w")
  have eq: "live_buy s a w =
      (case get_account s w of
         (Inl e, w1) \<Rightarrow> (Inl e, w1)
       | (Inr (JObj account), w1) \<Rightarrow>
           (Inr (error_result
              ''estimated_price is required when qty is used with notional limits''), w1)
       | (Inr other, w1) \<Rightarrow> (Inl AttributeError, w1))"
    using assms(2) on lc
    by (simp add: live_buy_def Let_def cong: prod.case_cong sum.case_cong json.case_cong)
  have "snd (live_buy s a w) = w1"
    unfolding eq acct by (simp split: sum.splits json.splits)
  with eq get_account_log [OF acct] show ?thesis by simp
qed


lemma limited_sys_simps:
  "has_credentials (limited_sys e)"
  "base_url (limited_sys e) = ''https://paper-api.alpaca.markets''"
  "http (limited_sys e) = broker_until 10 [(''equity'', JStr e)] []"
  "float_of_str (limited_sys e) = test_floats"
  "\<not> allow_short (limited_sys e)"
  "utc_date (limited_sys e) t = ''2024-01-02''"
  "pct_float (limited_sys e) x = ''<pct>''"
  "str_float (limited_sys e) x = ''<float>''"
  by (simp_all add: limited_sys_def test_sys_def has_credentials_def base_url_def allow_short_def
      lower_def)

lemma limited_sys_limits:
  "get_env_float (limited_sys e) ''MAX_ORDER_NOTIONAL_USD'' = Some 1000"
  "get_env_float (limited_sys e) ''MAX_DAILY_LOSS_PCT'' = Some (5 / 100)"
  "get_env_float (limited_sys e) ''MAX_ORDER_PCT_EQUITY'' = None"
  "get_env_float (limited_sys e) ''MAX_POSITION_NOTIONAL_USD'' = None"
  "get_env_float (limited_sys e) ''MAX_POSITION_PCT_EQUITY'' = None"
  by (simp_all add: get_env_float_def limited_sys_def test_sys_def test_floats_def)

lemma limited_account:
  "get_account (limited_sys e) w =
     (Inr (JObj [(''equity'', JStr e)]),
      w\<lparr>log := log w @ [Request ''GET'' ''https://paper-api.alpaca.markets/v2/account'' None]\<rparr>)"
  if "length (log w) < 10"
  using that by (simp add: get_account_def request_def limited_sys_simps broker_until_def)

theorem unestimable_order_fails_closed_witness:
  "notional (market_order ''AAPL'' (Some 1) None) = None \<and>
   qty (market_order ''AAPL'' (Some 1) None) = Some 1 \<and>
   estimated_price (market_order ''AAPL'' (Some 1) None) = None \<and>
   ''MAX_ORDER_NOTIONAL_USD'' \<in> set limit_keys \<and>
   get_env_float (limited_sys ''10000'') ''MAX_ORDER_NOTIONAL_USD'' = Some 1000 \<and>
   live_buy (limited_sys ''10000'') (market_order ''AAPL'' (Some 1) None) fresh_world =
     (Inr (error_result ''estimated_price is required when qty is used with notional limits''),
      fresh_world\<lparr>log := [Request ''GET'' ''https://paper-api.alpaca.markets/v2/account'' None]\<rparr>)"
proof -
  have h: "notional (market_order ''AAPL'' (Some 1) None) = None"
    "qty (market_order ''AAPL'' (Some 1) None) = Some 1"
    "estimated_price (market_order ''AAPL'' (Some 1) None) = None"
    "''MAX_ORDER_NOTIONAL_USD'' \<in> set limit_keys"
    by (simp_all add: market_order_def limit_keys_def)
  have acct: "get_account (limited_sys ''10000'') fresh_world =
     (Inr (JObj [(''equity'', JStr ''10000'')]),
      fresh_world\<lparr>log := [Request ''GET'' ''https://paper-api.alpaca.markets/v2/account'' None]\<rparr>)"
    using limited_account [of fresh_world "''10000''"] by (simp add: fresh_world_def)
  show ?thesis
    using unestimable_order_fails_closed [OF h limited_sys_limits(1), of "''10000''" fresh_world] h
    by (simp add: acct limited_sys_limits)
qed

subsection \<open>The daily-loss circuit breaker\<close>
























subsection \<open>The order of the risk checks\<close>











subsection \<open>Broker failures\<close>

lemma str_nat_503: "str_nat 503 = ''503''"
  by code_simp

lemma failing_sys_simps:
  "has_credentials (failing_sys k)"
  "base_url (failing_sys k) = ''https://paper-api.alpaca.markets''"
  "http (failing_sys k) = broker_until k [] []"
  "\<not> allow_short (failing_sys k)"
  "\<not> limits_configured (failing_sys k)"
  "get_env_float (failing_sys k) ''MAX_DAILY_LOSS_PCT'' = None"
  "get_env_float (failing_sys k) ''MAX_ORDER_NOTIONAL_USD'' = None"
  "get_env_float (failing_sys k) ''MAX_ORDER_PCT_EQUITY'' = None"
  "get_env_float (failing_sys k) ''MAX_POSITION_NOTIONAL_USD'' = None"
  "get_env_float (failing_sys k) ''MAX_POSITION_PCT_EQUITY'' = None"
  by (simp_all add: failing_sys_def test_sys_def has_credentials_def base_url_def allow_short_def
      lower_def limits_configured_def limit_keys_def get_env_float_def get_env_int_def)

lemma failing_request:
  "request (failing_sys k) m p b w =
     (if k \<le> length (log w) then Inl (RuntimeError ''Alpaca API error 503: unavailable'')
      else if m = ''POST'' then Inr (JObj [(''status'', JStr ''accepted'')])
      else if p = ''/v2/account'' then Inr (JObj [])
      else Inr (JArr []),
      w\<lparr>log := log w @ [Request m (''https://paper-api.alpaca.markets'' @ p) b]\<rparr>)"
  by (simp add: request_def failing_sys_simps broker_until_def str_nat_503)

lemma submit_caught_returns: "\<exists>j. fst (submit_caught s side a w) = Inr j"
  by (simp add: submit_caught_def split: prod.splits sum.splits)


lemma run_slices_complete:
  assumes "\<forall>x w. \<exists>j. fst (place x w) = Inr j"
  shows "\<exists>results. fst (run_slices place delay xs acc w) = Inr results
            \<and> length results = length acc + length xs"
proof (induction xs arbitrary: acc w)
  case Nil
  then show ?case by simp
next
  case (Cons x xs)
  obtain j where j: "fst (place x w) = Inr j"
    using assms by blast
  then obtain w1 where p: "place x w = (Inr j, w1)"
    by (cases "place x w") simp
  from Cons [of "acc @ [j]" "if delay > 0 then sleep delay w1 else w1"]
  show ?case by (simp add: p)
qed

lemma split_4_2: "split_equity_qty 4 2 = [2, 2]"
  by (simp add: split_equity_qty_shape py_int_def eval_nat_numeral)

lemma failing_buy_qty:
  "live_buy (failing_sys k) (market_order ''AAPL'' (Some 2) None) w =
     (if k \<le> length (log w)
      then (Inl (RuntimeError ''Alpaca API error 503: unavailable''),
            w\<lparr>log := log w @ [Request ''GET'' ''https://paper-api.alpaca.markets/v2/account'' None]\<rparr>)
      else (if k \<le> Suc (length (log w))
            then Inr (error_result ''Alpaca API error 503: unavailable'')
            else Inr (JObj [(''status'', JStr ''accepted'')]),
            w\<lparr>log := log w @
               [Request ''GET'' ''https://paper-api.alpaca.markets/v2/account'' None,
                Request ''POST'' ''https://paper-api.alpaca.markets/v2/orders''
                  (Some (JObj [(''symbol'', JStr ''AAPL''), (''side'', JStr ''buy''),
                               (''type'', JStr ''market''), (''qty'', JNum 2),
                               (''time_in_force'', JStr ''day'')]))]\<rparr>))"
  by (simp add: live_buy_def get_account_def failing_request market_order_def
      float_opt_def dict_get_def estimate_order_notional_def failing_sys_simps
      daily_loss_exceeded_def submit_caught_def submit_order_def opt_field_def resolve_tif_def)

lemma twap_setup:
  "live_twap_order (failing_sys k) ''buy'' (market_order ''AAPL'' (Some 4) None) (Some 2) (Some 1) w
     = finish_twap (run_slices (place_qty (failing_sys k) ''buy'' (market_order ''AAPL'' (Some 4) None))
         1 [2, 2] [] w)"
  by (simp add: live_twap_order_def lower_def lower_char_def int_or_def market_order_def
      split_4_2 Let_def)

lemma place_slice:
  "place_qty (failing_sys k) ''buy'' (market_order ''AAPL'' (Some 4) None) 2 w
     = live_buy (failing_sys k) (market_order ''AAPL'' (Some 2) None) w"
  by (simp add: place_qty_def market_order_def)

text \<open>
  C2 asks that every broker failure of an order placement, the account and position
  fetches included, comes back as an error result. Only the submission is guarded: with
  the broker down, a buy raises out of the account fetch, a buy whose account fetch
  succeeded raises out of the position fetch, and a guarded sell raises out of the
  position fetch, while the same failure at the submission of a sell is returned as
  \<^verbatim>\<open>{"error": ...}\<close>.
\<close>

theorem broker_fetch_failure_is_raised:
  "live_buy (failing_sys 0) (market_order ''AAPL'' (Some 1) None) fresh_world =
     (Inl (RuntimeError ''Alpaca API error 503: unavailable''),
      fresh_world\<lparr>log := [Request ''GET'' ''https://paper-api.alpaca.markets/v2/account'' None]\<rparr>) \<and>
   live_buy (failing_sys 1) (market_order ''AAPL'' None (Some 100)) fresh_world =
     (Inl (RuntimeError ''Alpaca API error 503: unavailable''),
      fresh_world\<lparr>log := [Request ''GET'' ''https://paper-api.alpaca.markets/v2/account'' None,
                             Request ''GET'' ''https://paper-api.alpaca.markets/v2/positions'' None]\<rparr>) \<and>
   live_sell (failing_sys 0) (market_order ''AAPL'' (Some 1) None) fresh_world =
     (Inl (RuntimeError ''Alpaca API error 503: unavailable''),
      fresh_world\<lparr>log := [Request ''GET'' ''https://paper-api.alpaca.markets/v2/positions'' None]\<rparr>) \<and>
   fst (live_sell (failing_sys 0) (market_order ''AAPL'' None (Some 100)) fresh_world) =
     Inr (error_result ''Alpaca API error 503: unavailable'')"
proof -
  have "live_buy (failing_sys 0) (market_order ''AAPL'' (Some 1) None) fresh_world =
     (Inl (RuntimeError ''Alpaca API error 503: unavailable''),
      fresh_world\<lparr>log := [Request ''GET'' ''https://paper-api.alpaca.markets/v2/account'' None]\<rparr>)"
    by (simp add: live_buy_def get_account_def failing_request market_order_def fresh_world_def)
  moreover have "live_buy (failing_sys 1) (market_order ''AAPL'' None (Some 100)) fresh_world =
     (Inl (RuntimeError ''Alpaca API error 503: unavailable''),
      fresh_world\<lparr>log := [Request ''GET'' ''https://paper-api.alpaca.markets/v2/account'' None,
                             Request ''GET'' ''https://paper-api.alpaca.markets/v2/positions'' None]\<rparr>)"
    by (simp add: live_buy_def get_account_def failing_request market_order_def fresh_world_def
        float_opt_def dict_get_def estimate_order_notional_def failing_sys_simps
        daily_loss_exceeded_def sizing_checks_def ensure_notional_limits_def list_positions_def)
  moreover have "live_sell (failing_sys 0) (market_order ''AAPL'' (Some 1) None) fresh_world =
     (Inl (RuntimeError ''Alpaca API error 503: unavailable''),
      fresh_world\<lparr>log := [Request ''GET'' ''https://paper-api.alpaca.markets/v2/positions'' None]\<rparr>)"
    by (simp add: live_sell_def list_positions_def failing_request market_order_def
        fresh_world_def failing_sys_simps)
  moreover have
    "fst (live_sell (failing_sys 0) (market_order ''AAPL'' None (Some 100)) fresh_world) =
       Inr (error_result ''Alpaca API error 503: unavailable'')"
    by (simp add: live_sell_def submit_caught_def submit_order_def failing_request
        market_order_def fresh_world_def failing_sys_simps)
  ultimately show ?thesis by blast
qed

text \<open>
  C3 asks that the scheduler always runs to completion and returns one result per
  slice. It does so while the slices return (a slice whose submission fails yields an
  error result and the next slice runs), but a slice that raises ends the scheduler: when
  the broker goes down after the first slice was submitted, the account fetch of the
  second slice raises, and the call raises with it; the result of the first slice is not
  returned.
\<close>

theorem twap_aborts_on_fetch_failure:
  "live_twap_order (failing_sys 2) ''buy'' (market_order ''AAPL'' (Some 4) None)
       (Some 2) (Some 1) fresh_world
     = (Inl (RuntimeError ''Alpaca API error 503: unavailable''),
        fresh_world\<lparr>log :=
            [Request ''GET'' ''https://paper-api.alpaca.markets/v2/account'' None,
             Request ''POST'' ''https://paper-api.alpaca.markets/v2/orders''
               (Some (JObj [(''symbol'', JStr ''AAPL''), (''side'', JStr ''buy''),
                            (''type'', JStr ''market''), (''qty'', JNum 2),
                            (''time_in_force'', JStr ''day'')])),
             Request ''GET'' ''https://paper-api.alpaca.markets/v2/account'' None],
          slept := 1\<rparr>) \<and>
   fst (live_twap_order (failing_sys 3) ''buy'' (market_order ''AAPL'' (Some 4) None)
          (Some 2) (Some 1) fresh_world)
     = Inr (JObj [(''slices'', JNum 2),
                  (''results'', JArr [JObj [(''status'', JStr ''accepted'')],
                                      error_result ''Alpaca API error 503: unavailable''])])"
  by (simp add: twap_setup place_slice failing_buy_qty fresh_world_def sleep_def finish_twap_def
      twap_result_def)


end
